theory Spec2Isabelle
  imports Main
begin

section \<open>The Vision client facade (vision/google/cloud/vision/client.py)\<close>

text \<open>
  The module is a facade class \<open>Client\<close> with a constructor, two factory methods
  (\<open>batch\<close>, \<open>image\<close>) and a lazily initialised property (\<open>_vision_api\<close>), plus one
  module-level constant (\<open>_USE_GAX\<close>) computed from the process environment when the
  module is imported.

  Python objects have identity, and the properties proved below are about reference
  equality and about back-references to the client, so objects live in an explicit store.  A reference is an
  index into the store; allocation appends, so a new reference is never the reference of
  an object that already exists.  Python names with a leading underscore lose it
  (\<open>_USE_GAX\<close> is \<open>USE_GAX\<close>, \<open>_vision_api\<close> is \<open>vision_api\<close>); the instance attributes
  \<open>self._use_gax\<close> and \<open>self._vision_api_internal\<close> are the fields \<open>self_use_gax\<close> and
  \<open>self_vision_api_internal\<close>.
\<close>

subsection \<open>Values\<close>

type_synonym ref = nat

type_synonym bytes = "char list"

text \<open>Credentials and http objects are opaque to the facade: it only stores them.\<close>

datatype credentials = Credentials string

datatype http = Http string

text \<open>
  The values \<open>os.getenv(DISABLE_GRPC, False)\<close> can return: the variable's string, or the
  default \<open>False\<close>.  \<open>truthy\<close> is Python's truth value of such a value: a string is true
  unless it is empty.
\<close>

datatype pyval = PyStr string | PyBool bool

fun truthy :: "pyval \<Rightarrow> bool" where
  "truthy (PyStr s) = (s \<noteq> [])"
| "truthy (PyBool b) = b"

text \<open>\<open>os.getenv(key, default)\<close> over \<open>os.environ\<close>.\<close>

definition getenv :: "(string \<rightharpoonup> string) \<Rightarrow> string \<Rightarrow> pyval \<Rightarrow> pyval" where
  "getenv env key dflt = (case env key of Some v \<Rightarrow> PyStr v | None \<Rightarrow> dflt)"

text \<open>
  Modelled from the spec: the constant \<open>DISABLE_GRPC\<close> is imported from
  \<open>google.cloud.environment_vars\<close>, which is not part of the source at hand; its value is
  the variable name given in the docstring of \<open>Client\<close> (client.py, line 55).  No theorem
  below depends on the particular name.
\<close>

definition DISABLE_GRPC :: string where
  "DISABLE_GRPC = ''GOOGLE_CLOUD_DISABLE_GRPC''"

text \<open>The class attribute \<open>SCOPE\<close> (client.py, line 59), a one-element tuple.\<close>

definition SCOPE :: "string list" where
  "SCOPE = [''https://www.googleapis.com/auth/cloud-platform'']"

subsection \<open>Objects and the store\<close>

text \<open>
  The attributes set by the base class \<open>ClientWithProject\<close>, extended by the two
  attributes of \<open>Client\<close>.  \<open>self_vision_api_internal\<close> starts as the class attribute
  \<open>_vision_api_internal = None\<close> (client.py, line 62).
\<close>

record client_with_project =
  project :: string
  credentials :: "credentials option"
  http :: "http option"

record client = client_with_project +
  self_use_gax :: bool
  self_vision_api_internal :: "ref option"

text \<open>
  Modelled from the spec: the classes \<open>_GAPICVisionAPI\<close>, \<open>_HTTPVisionAPI\<close>, \<open>Batch\<close> and
  \<open>Image\<close> are imported from modules that are not part of the source at hand.  Following
  sections 3 and 4.1 of the specification, an adapter and a batch are objects bound to the
  client they were created with, an image is bound to its client and carries the three
  optional inputs it was created with, and creating any of them cannot fail.
\<close>

datatype obj =
    ClientObj client
  | GAPICVisionAPI ref
  | HTTPVisionAPI ref
  | Batch ref
  | Image ref "bytes option" "string option" "string option"

text \<open>
  The state of the process: \<open>os.environ\<close>, the module global \<open>_USE_GAX\<close>, what the
  identity-resolution collaborator would infer from the surroundings (a default project and
  default credentials, each possibly absent), and the object store.
\<close>

record world =
  environ :: "string \<rightharpoonup> string"
  USE_GAX :: bool
  default_project :: "string option"
  default_credentials :: "credentials option"
  heap :: "obj list"

definition lookup :: "obj list \<Rightarrow> ref \<Rightarrow> obj option" where
  "lookup h r = (if r < length h then Some (h ! r) else None)"

definition alloc :: "world \<Rightarrow> obj \<Rightarrow> ref \<times> world" where
  "alloc w ob = (length (heap w), w\<lparr>heap := heap w @ [ob]\<rparr>)"

fun is_adapter :: "obj \<Rightarrow> bool" where
  "is_adapter (GAPICVisionAPI c) = True"
| "is_adapter (HTTPVisionAPI c) = True"
| "is_adapter ob = False"

subsection \<open>Module import\<close>

text \<open>
  Line 28, executed when the module is imported:
  \<^verbatim>\<open>_USE_GAX = not os.getenv(DISABLE_GRPC, False)\<close>
\<close>

definition import_module :: "world \<Rightarrow> world" where
  "import_module w = w\<lparr>USE_GAX := \<not> truthy (getenv (environ w) DISABLE_GRPC (PyBool False))\<rparr>"

subsection \<open>Construction\<close>

datatype error = AuthenticationResolutionError

text \<open>
  Modelled from the spec: \<open>ClientWithProject.__init__\<close> (\<open>google.cloud.client\<close>) is not
  part of the source at hand.  Sections 4.1 and 7 of the specification: the project and
  the credentials are the explicit arguments when given and are otherwise resolved from
  the surroundings, and construction fails with the one error class when the project or
  the credentials cannot be determined.  The docstring of \<open>Client\<close> (client.py, lines
  39-50) adds that credentials are resolved from the surroundings only if no \<open>http\<close>
  object is passed either.
\<close>

definition ClientWithProject_init ::
  "world \<Rightarrow> string option \<Rightarrow> credentials option \<Rightarrow> http option
     \<Rightarrow> error + client_with_project" where
  "ClientWithProject_init w proj creds ht =
     (case (case proj of Some p \<Rightarrow> Some p | None \<Rightarrow> default_project w) of
        None \<Rightarrow> Inl AuthenticationResolutionError
      | Some p \<Rightarrow>
          (if creds = None \<and> ht = None then
             (case default_credentials w of
                None \<Rightarrow> Inl AuthenticationResolutionError
              | Some c \<Rightarrow> Inr \<lparr>project = p, credentials = Some c, http = ht\<rparr>)
           else Inr \<lparr>project = p, credentials = creds, http = ht\<rparr>))"

text \<open>
  \<open>Client.__init__\<close> (lines 64-71).  Calling the class creates the object and runs
  \<open>__init__\<close> on it; an exception of the base constructor leaves no object behind.
\<close>

definition Client_init ::
  "world \<Rightarrow> string option \<Rightarrow> credentials option \<Rightarrow> http option \<Rightarrow> bool option
     \<Rightarrow> error + (ref \<times> world)" where
  "Client_init w proj creds ht use_gax =
     (case ClientWithProject_init w proj creds ht of
        Inl e \<Rightarrow> Inl e
      | Inr base \<Rightarrow>
          Inr (alloc w (ClientObj
            \<lparr>project = project base, credentials = credentials base, http = http base,
             self_use_gax = (case use_gax of None \<Rightarrow> USE_GAX w | Some b \<Rightarrow> b),
             self_vision_api_internal = None\<rparr>)))"

subsection \<open>Methods\<close>

text \<open>
  A method is called on a reference \<open>self\<close>; the result is \<open>None\<close> when \<open>self\<close> is not the
  reference of a client in the store (in Python the method would not have been found).
\<close>

text \<open>\<open>Client.batch\<close> (lines 73-79): \<^verbatim>\<open>return Batch(self)\<close>\<close>

definition batch :: "ref \<Rightarrow> world \<Rightarrow> (ref \<times> world) option" where
  "batch self w =
     (case lookup (heap w) self of
        Some (ClientObj c) \<Rightarrow> Some (alloc w (Batch self))
      | _ \<Rightarrow> None)"

text \<open>
  \<open>Client.image\<close> (lines 81-97):
  \<^verbatim>\<open>return Image(client=self, content=content, filename=filename, source_uri=source_uri)\<close>
\<close>

definition image ::
  "ref \<Rightarrow> bytes option \<Rightarrow> string option \<Rightarrow> string option \<Rightarrow> world
     \<Rightarrow> (ref \<times> world) option" where
  "image self content filename source_uri w =
     (case lookup (heap w) self of
        Some (ClientObj c) \<Rightarrow> Some (alloc w (Image self content filename source_uri))
      | _ \<Rightarrow> None)"

text \<open>
  The property \<open>Client._vision_api\<close> (lines 99-113): when the cached field is \<open>None\<close>, an
  adapter is created according to \<open>self._use_gax\<close> and stored in the field; the field's
  value is returned.
\<close>

definition vision_api :: "ref \<Rightarrow> world \<Rightarrow> (ref \<times> world) option" where
  "vision_api self w =
     (case lookup (heap w) self of
        Some (ClientObj c) \<Rightarrow>
          (case self_vision_api_internal c of
             None \<Rightarrow>
               (let (a, w') = alloc w (if self_use_gax c then GAPICVisionAPI self
                                       else HTTPVisionAPI self)
                in Some (a, w'\<lparr>heap := (heap w')
                                 [self := ClientObj (c\<lparr>self_vision_api_internal := Some a\<rparr>)]\<rparr>))
           | Some a \<Rightarrow> Some (a, w))
      | _ \<Rightarrow> None)"

subsection \<open>Sequences of calls on one client\<close>

text \<open>
  The three operations of a client as data, so that a property can be stated for every
  sequence of calls a caller may make.  \<open>run\<close> performs the calls in order and collects
  what each one returns.
\<close>

datatype call =
    CallBatch
  | CallImage "bytes option" "string option" "string option"
  | CallVisionApi

fun do_call :: "ref \<Rightarrow> call \<Rightarrow> world \<Rightarrow> (ref \<times> world) option" where
  "do_call self CallBatch w = batch self w"
| "do_call self (CallImage content filename source_uri) w =
     image self content filename source_uri w"
| "do_call self CallVisionApi w = vision_api self w"

fun run :: "ref \<Rightarrow> call list \<Rightarrow> world \<Rightarrow> (ref list \<times> world) option" where
  "run self [] w = Some ([], w)"
| "run self (k # ks) w =
     (case do_call self k w of
        None \<Rightarrow> None
      | Some (r, w') \<Rightarrow>
          (case run self ks w' of
             None \<Rightarrow> None
           | Some (rs, w'') \<Rightarrow> Some (r # rs, w'')))"

text \<open>
  What else can happen to a client and its surroundings between two calls: the caller
  assigns the attribute \<open>_use_gax\<close>, or the process environment changes
  (\<open>os.environ[k] = v\<close>, \<open>del os.environ[k]\<close>).
\<close>

datatype action =
    Call call
  | SetUseGax bool
  | PutEnv string string
  | DelEnv string

fun act :: "ref \<Rightarrow> action \<Rightarrow> world \<Rightarrow> world option" where
  "act self (Call k) w = map_option snd (do_call self k w)"
| "act self (SetUseGax b) w =
     (case lookup (heap w) self of
        Some (ClientObj c) \<Rightarrow>
          Some (w\<lparr>heap := (heap w)[self := ClientObj (c\<lparr>self_use_gax := b\<rparr>)]\<rparr>)
      | _ \<Rightarrow> None)"
| "act self (PutEnv k v) w = Some (w\<lparr>environ := (environ w)(k \<mapsto> v)\<rparr>)"
| "act self (DelEnv k) w = Some (w\<lparr>environ := (environ w)(k := None)\<rparr>)"

fun acts :: "ref \<Rightarrow> action list \<Rightarrow> world \<Rightarrow> world option" where
  "acts self [] w = Some w"
| "acts self (x # xs) w =
     (case act self x w of None \<Rightarrow> None | Some w' \<Rightarrow> acts self xs w')"

subsection \<open>Example states\<close>

text \<open>
  Concrete states for the worked examples below: a process without a default project and
  default credentials, and a client of project \<open>p\<close> with credentials \<open>k\<close>.
\<close>

abbreviation example_world :: "(string \<rightharpoonup> string) \<Rightarrow> bool \<Rightarrow> obj list \<Rightarrow> world" where
  "example_world env flag objs \<equiv>
     \<lparr>environ = env, USE_GAX = flag, default_project = None, default_credentials = None,
      heap = objs\<rparr>"

abbreviation example_client :: "bool \<Rightarrow> ref option \<Rightarrow> client" where
  "example_client flag cached \<equiv>
     \<lparr>project = ''p'', credentials = Some (Credentials ''k''), http = None,
      self_use_gax = flag, self_vision_api_internal = cached\<rparr>"

section \<open>Basic facts about the store\<close>

lemma lookup_append_old: "r < length h \<Longrightarrow> lookup (h @ xs) r = lookup h r"
  by (simp add: lookup_def nth_append)

lemma lookup_append_new: "lookup (h @ [ob]) (length h) = Some ob"
  by (simp add: lookup_def)

lemma lookup_update_append_new: "lookup (h[c := x] @ [ob]) (length h) = Some ob"
  by (simp add: lookup_def nth_append)

lemma lookup_update_append_self: "c < length h \<Longrightarrow> lookup (h[c := x] @ ys) c = Some x"
  by (simp add: lookup_def nth_append)

lemma lookup_Some_less: "lookup h r = Some ob \<Longrightarrow> r < length h"
  by (simp add: lookup_def split: if_splits)

lemma Client_init_Inr:
  assumes "Client_init w proj creds ht ug = Inr (c, w1)"
  shows "\<exists>cl. c = length (heap w) \<and> w1 = w\<lparr>heap := heap w @ [ClientObj cl]\<rparr>
           \<and> self_use_gax cl = (case ug of None \<Rightarrow> USE_GAX w | Some b \<Rightarrow> b)
           \<and> self_vision_api_internal cl = None"
  using assms by (auto simp: Client_init_def alloc_def split: sum.splits)

lemma vision_api_unresolved:
  assumes "lookup (heap w) c = Some (ClientObj cl)" "self_vision_api_internal cl = None"
  shows "vision_api c w =
    Some (length (heap w),
          w\<lparr>heap := (heap w)[c := ClientObj (cl\<lparr>self_vision_api_internal := Some (length (heap w))\<rparr>)]
                    @ [if self_use_gax cl then GAPICVisionAPI c else HTTPVisionAPI c]\<rparr>)"
  using assms lookup_Some_less[OF assms(1)]
  by (simp add: vision_api_def alloc_def list_update_append)

lemma vision_api_resolved:
  assumes "lookup (heap w) c = Some (ClientObj cl)" "self_vision_api_internal cl = Some a"
  shows "vision_api c w = Some (a, w)"
  using assms by (simp add: vision_api_def)

section \<open>Facts about sequences of calls\<close>

lemma filter_adapter_update:
  assumes "lookup h c = Some (ClientObj cl)"
  shows "filter is_adapter (h[c := ClientObj cl']) = filter is_adapter h"
proof -
  have c: "c < length h" and hc: "h ! c = ClientObj cl"
    using assms by (auto simp: lookup_def split: if_splits)
  have "h = take c h @ ClientObj cl # drop (Suc c) h"
    using c hc by (metis id_take_nth_drop)
  moreover have "h[c := ClientObj cl'] = take c h @ ClientObj cl' # drop (Suc c) h"
    using c by (rule upd_conv_take_nth_drop)
  ultimately show ?thesis
    by (metis filter.simps(2) filter_append is_adapter.simps(3))
qed

lemma do_call_other:
  assumes "lookup (heap w) c = Some (ClientObj cl)" "k \<noteq> CallVisionApi"
  shows "\<exists>r ob. do_call c k w = Some (r, w\<lparr>heap := heap w @ [ob]\<rparr>) \<and> \<not> is_adapter ob"
proof (cases k)
  case CallBatch
  then show ?thesis
    using assms by (intro exI[of _ "length (heap w)"] exI[of _ "Batch c"])
      (simp add: batch_def alloc_def)
next
  case (CallImage content filename source_uri)
  then show ?thesis
    using assms
    by (intro exI[of _ "length (heap w)"] exI[of _ "Image c content filename source_uri"])
      (simp add: image_def alloc_def)
next
  case CallVisionApi
  then show ?thesis using assms by simp
qed

lemma run_resolved:
  assumes "lookup (heap w) c = Some (ClientObj cl)" "self_vision_api_internal cl = Some a"
  shows "\<exists>rs w2 ys. run c ks w = Some (rs, w2) \<and> length rs = length ks
           \<and> (\<forall>(k, r) \<in> set (zip ks rs). k = CallVisionApi \<longrightarrow> r = a)
           \<and> heap w2 = heap w @ ys \<and> filter is_adapter ys = []"
  using assms(1)
proof (induction ks arbitrary: w)
  case Nil
  then show ?case by simp
next
  case (Cons k ks)
  show ?case
  proof (cases "k = CallVisionApi")
    case True
    have "do_call c k w = Some (a, w)"
      using True vision_api_resolved[OF Cons.prems assms(2)] by simp
    moreover from Cons.IH[OF Cons.prems] obtain rs w2 ys where
      "run c ks w = Some (rs, w2)" "length rs = length ks"
      "\<forall>(k, r) \<in> set (zip ks rs). k = CallVisionApi \<longrightarrow> r = a"
      "heap w2 = heap w @ ys" "filter is_adapter ys = []"
      by blast
    ultimately show ?thesis by simp
  next
    case False
    from do_call_other[OF Cons.prems False] obtain r ob where
      d: "do_call c k w = Some (r, w\<lparr>heap := heap w @ [ob]\<rparr>)" and ob: "\<not> is_adapter ob"
      by blast
    have l1: "lookup (heap (w\<lparr>heap := heap w @ [ob]\<rparr>)) c = Some (ClientObj cl)"
      using Cons.prems lookup_Some_less[OF Cons.prems] by (simp add: lookup_append_old)
    from Cons.IH[OF l1] obtain rs w2 ys where
      "run c ks (w\<lparr>heap := heap w @ [ob]\<rparr>) = Some (rs, w2)" "length rs = length ks"
      "\<forall>(k, r) \<in> set (zip ks rs). k = CallVisionApi \<longrightarrow> r = a"
      "heap w2 = heap w @ [ob] @ ys" "filter is_adapter ys = []"
      by auto
    with d ob False show ?thesis by simp
  qed
qed

lemma run_unresolved:
  assumes "lookup (heap w) c = Some (ClientObj cl)" "self_vision_api_internal cl = None"
    "CallVisionApi \<in> set ks"
  shows "\<exists>a rs w2. run c ks w = Some (rs, w2) \<and> length rs = length ks
           \<and> (\<forall>(k, r) \<in> set (zip ks rs). k = CallVisionApi \<longrightarrow> r = a)
           \<and> length (filter is_adapter (heap w2)) = Suc (length (filter is_adapter (heap w)))
           \<and> lookup (heap w2) a
               = Some (if self_use_gax cl then GAPICVisionAPI c else HTTPVisionAPI c)"
  using assms(1,3)
proof (induction ks arbitrary: w)
  case Nil
  then show ?case by simp
next
  case (Cons k ks)
  show ?case
  proof (cases "k = CallVisionApi")
    case True
    let ?a = "length (heap w)"
    let ?cl = "cl\<lparr>self_vision_api_internal := Some ?a\<rparr>"
    let ?ad = "if self_use_gax cl then GAPICVisionAPI c else HTTPVisionAPI c"
    let ?w1 = "w\<lparr>heap := (heap w)[c := ClientObj ?cl] @ [?ad]\<rparr>"
    have c: "c < length (heap w)" by (rule lookup_Some_less[OF Cons.prems(1)])
    have d: "do_call c k w = Some (?a, ?w1)"
      using True vision_api_unresolved[OF Cons.prems(1) assms(2)] by simp
    have l1: "lookup (heap ?w1) c = Some (ClientObj ?cl)"
      using c by (simp add: lookup_update_append_self)
    have f1: "length (filter is_adapter (heap ?w1)) = Suc (length (filter is_adapter (heap w)))"
      by (simp add: filter_adapter_update[OF Cons.prems(1)])
    from run_resolved[OF l1, of ?a ks] obtain rs w2 ys where
      r: "run c ks ?w1 = Some (rs, w2)" "length rs = length ks"
      "\<forall>(k, r) \<in> set (zip ks rs). k = CallVisionApi \<longrightarrow> r = ?a"
      "heap w2 = heap ?w1 @ ys" "filter is_adapter ys = []"
      by auto
    have la: "lookup (heap w2) ?a = Some ?ad"
      unfolding r(4) by (simp add: lookup_def nth_append)
    have "filter is_adapter (heap w2) = filter is_adapter (heap ?w1)"
      using r(4,5) by simp
    with f1 have f2:
      "length (filter is_adapter (heap w2)) = Suc (length (filter is_adapter (heap w)))"
      by simp
    from d r(1,2,3) la f2 show ?thesis
      by (intro exI[of _ ?a] exI[of _ "?a # rs"] exI[of _ w2]) simp
  next
    case False
    from do_call_other[OF Cons.prems(1) False] obtain r ob where
      d: "do_call c k w = Some (r, w\<lparr>heap := heap w @ [ob]\<rparr>)" and ob: "\<not> is_adapter ob"
      by blast
    let ?w1 = "w\<lparr>heap := heap w @ [ob]\<rparr>"
    have l1: "lookup (heap ?w1) c = Some (ClientObj cl)"
      using Cons.prems(1) lookup_Some_less[OF Cons.prems(1)] by (simp add: lookup_append_old)
    have "CallVisionApi \<in> set ks" using Cons.prems(2) False by auto
    from Cons.IH[OF l1 this] obtain a rs w2 where
      r: "run c ks ?w1 = Some (rs, w2)" "length rs = length ks"
      "\<forall>(k, r) \<in> set (zip ks rs). k = CallVisionApi \<longrightarrow> r = a"
      "length (filter is_adapter (heap w2)) = Suc (length (filter is_adapter (heap ?w1)))"
      "lookup (heap w2) a = Some (if self_use_gax cl then GAPICVisionAPI c else HTTPVisionAPI c)"
      by blast
    from d r ob False show ?thesis
      by (intro exI[of _ a] exI[of _ "r # rs"] exI[of _ w2]) simp
  qed
qed

lemma act_resolved:
  assumes "lookup (heap w) c = Some (ClientObj cl)" "self_vision_api_internal cl = Some a"
  shows "\<exists>w1 cl1. act c x w = Some w1 \<and> lookup (heap w1) c = Some (ClientObj cl1)
           \<and> self_vision_api_internal cl1 = Some a"
proof (cases x)
  case (Call k)
  show ?thesis
  proof (cases "k = CallVisionApi")
    case True
    then show ?thesis
      using Call assms by (simp add: vision_api_resolved[OF assms])
  next
    case False
    from do_call_other[OF assms(1) False] obtain r ob where
      "do_call c k w = Some (r, w\<lparr>heap := heap w @ [ob]\<rparr>)"
      by blast
    then show ?thesis
      using Call assms lookup_Some_less[OF assms(1)] by (simp add: lookup_append_old)
  qed
next
  case (SetUseGax b)
  then show ?thesis
    using assms lookup_Some_less[OF assms(1)] by (simp add: lookup_def)
next
  case (PutEnv k v)
  then show ?thesis using assms by simp
next
  case (DelEnv k)
  then show ?thesis using assms by simp
qed

lemma acts_resolved:
  assumes "lookup (heap w) c = Some (ClientObj cl)" "self_vision_api_internal cl = Some a"
  shows "\<exists>w1 cl1. acts c xs w = Some w1 \<and> lookup (heap w1) c = Some (ClientObj cl1)
           \<and> self_vision_api_internal cl1 = Some a"
  using assms
proof (induction xs arbitrary: w cl)
  case Nil
  then show ?case by simp
next
  case (Cons x xs)
  from act_resolved[OF Cons.prems] obtain w1 cl1 where
    a: "act c x w = Some w1" and l1: "lookup (heap w1) c = Some (ClientObj cl1)" and
    i1: "self_vision_api_internal cl1 = Some a"
    by blast
  from Cons.IH[OF l1 i1] a show ?case by simp
qed

section \<open>Transport selection\<close>

text \<open>
  C1.  A client constructed with \<open>use_gax=True\<close>: whatever the environment and the module
  constant are (the world \<open>w\<close> is arbitrary), the first access to \<open>_vision_api\<close> succeeds
  and returns an object that is a \<open>_GAPICVisionAPI\<close> bound to this client.
\<close>

theorem use_gax_True_gives_GAPIC:
  assumes "Client_init w proj creds ht (Some True) = Inr (c, w1)"
  shows "\<exists>a w2. vision_api c w1 = Some (a, w2)
           \<and> lookup (heap w2) a = Some (GAPICVisionAPI c)"
proof -
  from Client_init_Inr[OF assms] obtain cl where
    c: "c = length (heap w)" and w1: "w1 = w\<lparr>heap := heap w @ [ClientObj cl]\<rparr>" and
    flag: "self_use_gax cl" and none: "self_vision_api_internal cl = None"
    by auto
  have l: "lookup (heap w1) c = Some (ClientObj cl)"
    by (simp add: c w1 lookup_append_new)
  show ?thesis
    by (simp add: vision_api_unresolved[OF l none] flag lookup_update_append_new)
qed

text \<open>The variable is set and the module constant is false; the override wins.\<close>

theorem use_gax_True_gives_GAPIC_witness:
  "Client_init (example_world [DISABLE_GRPC \<mapsto> ''1''] False [])
      (Some ''p'') (Some (Credentials ''k'')) None (Some True)
    = Inr (0, example_world [DISABLE_GRPC \<mapsto> ''1''] False [ClientObj (example_client True None)])
   \<and> (\<exists>a w2.
        vision_api 0
          (example_world [DISABLE_GRPC \<mapsto> ''1''] False [ClientObj (example_client True None)])
          = Some (a, w2)
        \<and> lookup (heap w2) a = Some (GAPICVisionAPI 0))"
proof -
  have h: "Client_init (example_world [DISABLE_GRPC \<mapsto> ''1''] False [])
      (Some ''p'') (Some (Credentials ''k'')) None (Some True)
    = Inr (0, example_world [DISABLE_GRPC \<mapsto> ''1''] False [ClientObj (example_client True None)])"
    by (simp add: Client_init_def ClientWithProject_init_def alloc_def)
  from use_gax_True_gives_GAPIC[OF h] h show ?thesis
    by simp
qed

text \<open>
  C2.  A client constructed with \<open>use_gax=False\<close>: whatever the environment and the
  module constant are, the first access to \<open>_vision_api\<close> succeeds and returns an object
  that is a \<open>_HTTPVisionAPI\<close> bound to this client.
\<close>

theorem use_gax_False_gives_HTTP:
  assumes "Client_init w proj creds ht (Some False) = Inr (c, w1)"
  shows "\<exists>a w2. vision_api c w1 = Some (a, w2)
           \<and> lookup (heap w2) a = Some (HTTPVisionAPI c)"
proof -
  from Client_init_Inr[OF assms] obtain cl where
    c: "c = length (heap w)" and w1: "w1 = w\<lparr>heap := heap w @ [ClientObj cl]\<rparr>" and
    flag: "\<not> self_use_gax cl" and none: "self_vision_api_internal cl = None"
    by auto
  have l: "lookup (heap w1) c = Some (ClientObj cl)"
    by (simp add: c w1 lookup_append_new)
  show ?thesis
    by (simp add: vision_api_unresolved[OF l none] flag lookup_update_append_new)
qed

text \<open>The variable is unset and the module constant is true; the override wins.\<close>

theorem use_gax_False_gives_HTTP_witness:
  "Client_init (example_world Map.empty True [])
      (Some ''p'') (Some (Credentials ''k'')) None (Some False)
    = Inr (0, example_world Map.empty True [ClientObj (example_client False None)])
   \<and> (\<exists>a w2.
        vision_api 0 (example_world Map.empty True [ClientObj (example_client False None)])
          = Some (a, w2)
        \<and> lookup (heap w2) a = Some (HTTPVisionAPI 0))"
proof -
  have h: "Client_init (example_world Map.empty True [])
      (Some ''p'') (Some (Credentials ''k'')) None (Some False)
    = Inr (0, example_world Map.empty True [ClientObj (example_client False None)])"
    by (simp add: Client_init_def ClientWithProject_init_def alloc_def)
  from use_gax_False_gives_HTTP[OF h] h show ?thesis
    by simp
qed

text \<open>
  C3.  The claim: with \<open>use_gax=None\<close> the environment variable, read at construction,
  decides; present with any string value gives the HTTP adapter, unset gives the RPC
  adapter.  It fails on the code in two ways.  First input: the variable is present with
  the empty string (at import and at construction alike); the empty string is false in
  Python, so \<open>_USE_GAX\<close> is true and the adapter is a \<open>_GAPICVisionAPI\<close>.  Second input:
  the variable is unset when the module is imported and set to \<open>1\<close> before the client is
  constructed; the constructor uses the module constant computed at import, so the
  adapter is again a \<open>_GAPICVisionAPI\<close> although the variable is set at construction.
\<close>

theorem env_toggle_counterexample:
  "environ (example_world [DISABLE_GRPC \<mapsto> ''''] False []) DISABLE_GRPC = Some ''''
   \<and> Client_init (import_module (example_world [DISABLE_GRPC \<mapsto> ''''] False []))
        (Some ''p'') (Some (Credentials ''k'')) None None
      = Inr (0, example_world [DISABLE_GRPC \<mapsto> ''''] True [ClientObj (example_client True None)])
   \<and> vision_api 0
        (example_world [DISABLE_GRPC \<mapsto> ''''] True [ClientObj (example_client True None)])
      = Some (1, example_world [DISABLE_GRPC \<mapsto> ''''] True
                   [ClientObj (example_client True (Some 1)), GAPICVisionAPI 0])
   \<and> environ ((import_module (example_world Map.empty False []))
                 \<lparr>environ := [DISABLE_GRPC \<mapsto> ''1'']\<rparr>) DISABLE_GRPC = Some ''1''
   \<and> Client_init ((import_module (example_world Map.empty False []))
                     \<lparr>environ := [DISABLE_GRPC \<mapsto> ''1'']\<rparr>)
        (Some ''p'') (Some (Credentials ''k'')) None None
      = Inr (0, example_world [DISABLE_GRPC \<mapsto> ''1''] True [ClientObj (example_client True None)])
   \<and> vision_api 0
        (example_world [DISABLE_GRPC \<mapsto> ''1''] True [ClientObj (example_client True None)])
      = Some (1, example_world [DISABLE_GRPC \<mapsto> ''1''] True
                   [ClientObj (example_client True (Some 1)), GAPICVisionAPI 0])"
  by (simp add: Client_init_def ClientWithProject_init_def alloc_def import_module_def
      getenv_def vision_api_def lookup_def)

text \<open>
  C3, as amended.  With \<open>use_gax=None\<close> the module constant \<open>_USE_GAX\<close> decides, and it was
  computed from the environment when the module was imported (world \<open>w\<close>); whatever the
  environment is when the client is constructed (\<open>e\<close>), the first access to \<open>_vision_api\<close>
  returns a \<open>_HTTPVisionAPI\<close> if the variable was present with a non-empty value at
  import, and a \<open>_GAPICVisionAPI\<close> if it was unset or empty.
\<close>

theorem env_toggle_at_import:
  assumes "Client_init ((import_module w)\<lparr>environ := e\<rparr>) proj creds ht None = Inr (c, w1)"
  shows "\<exists>a w2. vision_api c w1 = Some (a, w2)
           \<and> lookup (heap w2) a =
               Some (case environ w DISABLE_GRPC of
                       None \<Rightarrow> GAPICVisionAPI c
                     | Some v \<Rightarrow> if v = [] then GAPICVisionAPI c else HTTPVisionAPI c)"
proof -
  from Client_init_Inr[OF assms] obtain cl where
    c: "c = length (heap w)" and
    w1: "w1 = (import_module w)\<lparr>environ := e, heap := heap w @ [ClientObj cl]\<rparr>" and
    flag: "self_use_gax cl = (\<not> truthy (getenv (environ w) DISABLE_GRPC (PyBool False)))" and
    none: "self_vision_api_internal cl = None"
    by (auto simp: import_module_def)
  have l: "lookup (heap w1) c = Some (ClientObj cl)"
    by (simp add: c w1 lookup_append_new)
  show ?thesis
    by (simp add: vision_api_unresolved[OF l none] flag lookup_update_append_new getenv_def
        split: option.splits)
qed

text \<open>Set to \<open>1\<close> at import, unset again before construction: the HTTP adapter.\<close>

theorem env_toggle_at_import_witness:
  "Client_init ((import_module (example_world [DISABLE_GRPC \<mapsto> ''1''] True []))
                  \<lparr>environ := Map.empty\<rparr>)
      (Some ''p'') (Some (Credentials ''k'')) None None
    = Inr (0, example_world Map.empty False [ClientObj (example_client False None)])
   \<and> (\<exists>a w2.
        vision_api 0 (example_world Map.empty False [ClientObj (example_client False None)])
          = Some (a, w2)
        \<and> lookup (heap w2) a = Some (HTTPVisionAPI 0))"
proof -
  have h: "Client_init ((import_module (example_world [DISABLE_GRPC \<mapsto> ''1''] True []))
                  \<lparr>environ := Map.empty\<rparr>)
      (Some ''p'') (Some (Credentials ''k'')) None None
    = Inr (0, example_world Map.empty False [ClientObj (example_client False None)])"
    by (simp add: Client_init_def ClientWithProject_init_def alloc_def import_module_def
        getenv_def)
  from env_toggle_at_import[OF h] h show ?thesis
    by simp
qed

text \<open>
  C9.  The environment variable is consulted when the module is imported (world \<open>w\<close>), not
  when a client is constructed: if the variable is given any other state \<open>v\<close> (set to a
  string, or unset) after the import, a client constructed afterwards with \<open>use_gax=None\<close>
  still gets as \<open>_use_gax\<close> the value computed from the environment at import (and one
  constructed with an explicit \<open>use_gax\<close> gets that), and the construction has the same
  result as without the change.
\<close>

theorem USE_GAX_fixed_at_import:
  assumes "Client_init ((import_module w)\<lparr>environ := (environ w)(DISABLE_GRPC := v)\<rparr>)
             proj creds ht ug = Inr (c, w1)"
  shows "\<exists>cl. lookup (heap w1) c = Some (ClientObj cl)
           \<and> self_use_gax cl =
               (case ug of
                  None \<Rightarrow> \<not> truthy (getenv (environ w) DISABLE_GRPC (PyBool False))
                | Some b \<Rightarrow> b)
           \<and> Client_init (import_module w) proj creds ht ug
               = Inr (c, w1\<lparr>environ := environ w\<rparr>)"
  using assms
  by (auto simp: Client_init_def ClientWithProject_init_def alloc_def import_module_def
      lookup_append_new split: sum.splits option.splits if_splits)

text \<open>Unset at import, set to \<open>1\<close> before construction: \<open>_use_gax\<close> is true all the same.\<close>

theorem USE_GAX_fixed_at_import_witness:
  "Client_init ((import_module (example_world Map.empty False []))
                  \<lparr>environ := (environ (example_world Map.empty False []))
                                (DISABLE_GRPC := Some ''1'')\<rparr>)
      (Some ''p'') (Some (Credentials ''k'')) None None
    = Inr (0, example_world [DISABLE_GRPC \<mapsto> ''1''] True [ClientObj (example_client True None)])
   \<and> lookup
        (heap (example_world [DISABLE_GRPC \<mapsto> ''1''] True [ClientObj (example_client True None)]))
        0
      = Some (ClientObj (example_client True None))
   \<and> self_use_gax (example_client True None)
      = (\<not> truthy (getenv Map.empty DISABLE_GRPC (PyBool False)))
   \<and> Client_init (import_module (example_world Map.empty False []))
        (Some ''p'') (Some (Credentials ''k'')) None None
      = Inr (0, example_world Map.empty True [ClientObj (example_client True None)])"
proof -
  have h: "Client_init ((import_module (example_world Map.empty False []))
                  \<lparr>environ := (environ (example_world Map.empty False []))
                                (DISABLE_GRPC := Some ''1'')\<rparr>)
      (Some ''p'') (Some (Credentials ''k'')) None None
    = Inr (0, example_world [DISABLE_GRPC \<mapsto> ''1''] True [ClientObj (example_client True None)])"
    by (simp add: Client_init_def ClientWithProject_init_def alloc_def import_module_def
        getenv_def)
  from USE_GAX_fixed_at_import[OF h] h show ?thesis
    by (auto simp: lookup_def getenv_def)
qed

section \<open>The cached adapter\<close>

text \<open>
  C4.  Over the lifetime of a client, from its construction through any sequence \<open>ks\<close> of
  calls to \<open>batch\<close>, \<open>image\<close> and \<open>_vision_api\<close> with at least one access to \<open>_vision_api\<close>:
  every call succeeds, every access to \<open>_vision_api\<close> returns the same reference \<open>a\<close>, the
  object at \<open>a\<close> is an adapter bound to the client, and the store holds exactly one more
  adapter object than before the client was constructed.  \<open>N\<close> accesses in a row are the
  case \<open>ks = replicate N CallVisionApi\<close>.
\<close>

theorem vision_api_one_adapter:
  assumes "Client_init w proj creds ht ug = Inr (c, w1)" and "CallVisionApi \<in> set ks"
  shows "\<exists>a rs w2. run c ks w1 = Some (rs, w2) \<and> length rs = length ks
           \<and> (\<forall>i<length ks. ks ! i = CallVisionApi \<longrightarrow> rs ! i = a)
           \<and> (lookup (heap w2) a = Some (GAPICVisionAPI c)
                \<or> lookup (heap w2) a = Some (HTTPVisionAPI c))
           \<and> length (filter is_adapter (heap w2)) = Suc (length (filter is_adapter (heap w)))"
proof -
  from Client_init_Inr[OF assms(1)] obtain cl where
    c: "c = length (heap w)" and w1: "w1 = w\<lparr>heap := heap w @ [ClientObj cl]\<rparr>" and
    none: "self_vision_api_internal cl = None"
    by auto
  have l: "lookup (heap w1) c = Some (ClientObj cl)"
    by (simp add: c w1 lookup_append_new)
  from run_unresolved[OF l none assms(2)] obtain a rs w2 where
    r: "run c ks w1 = Some (rs, w2)" "length rs = length ks"
      "\<forall>(k, r) \<in> set (zip ks rs). k = CallVisionApi \<longrightarrow> r = a"
      "length (filter is_adapter (heap w2)) = Suc (length (filter is_adapter (heap w1)))"
      "lookup (heap w2) a = Some (if self_use_gax cl then GAPICVisionAPI c else HTTPVisionAPI c)"
    by blast
  have "\<forall>i<length ks. ks ! i = CallVisionApi \<longrightarrow> rs ! i = a"
  proof (intro allI impI)
    fix i assume "i < length ks" "ks ! i = CallVisionApi"
    then have "(ks ! i, rs ! i) \<in> set (zip ks rs)"
      using r(2) by (metis nth_zip nth_mem length_zip min.idem)
    with r(3) \<open>ks ! i = CallVisionApi\<close> show "rs ! i = a" by auto
  qed
  moreover have "length (filter is_adapter (heap w1)) = length (filter is_adapter (heap w))"
    by (simp add: w1)
  ultimately show ?thesis using r by (intro exI[of _ a] exI[of _ rs] exI[of _ w2]) auto
qed

text \<open>A new client, then four calls, three of them accesses to \<open>_vision_api\<close>.\<close>

theorem vision_api_one_adapter_witness:
  "Client_init (example_world Map.empty True []) (Some ''p'') (Some (Credentials ''k'')) None None
    = Inr (0, example_world Map.empty True [ClientObj (example_client True None)])
   \<and> CallVisionApi \<in> set [CallVisionApi, CallBatch, CallVisionApi, CallVisionApi]
   \<and> (\<exists>a rs w2.
        run 0 [CallVisionApi, CallBatch, CallVisionApi, CallVisionApi]
          (example_world Map.empty True [ClientObj (example_client True None)]) = Some (rs, w2)
        \<and> length rs = 4 \<and> rs ! 0 = a \<and> rs ! 2 = a \<and> rs ! 3 = a
        \<and> (lookup (heap w2) a = Some (GAPICVisionAPI 0)
             \<or> lookup (heap w2) a = Some (HTTPVisionAPI 0))
        \<and> length (filter is_adapter (heap w2)) = 1)"
proof -
  have h: "Client_init (example_world Map.empty True [])
      (Some ''p'') (Some (Credentials ''k'')) None None
    = Inr (0, example_world Map.empty True [ClientObj (example_client True None)])"
    by (simp add: Client_init_def ClientWithProject_init_def alloc_def)
  have k: "CallVisionApi \<in> set [CallVisionApi, CallBatch, CallVisionApi, CallVisionApi]"
    by simp
  from vision_api_one_adapter[OF h k] obtain a rs w2 where
    r: "run 0 [CallVisionApi, CallBatch, CallVisionApi, CallVisionApi]
          (example_world Map.empty True [ClientObj (example_client True None)]) = Some (rs, w2)"
      "length rs = length [CallVisionApi, CallBatch, CallVisionApi, CallVisionApi]"
      "\<forall>i<length [CallVisionApi, CallBatch, CallVisionApi, CallVisionApi].
         [CallVisionApi, CallBatch, CallVisionApi, CallVisionApi] ! i = CallVisionApi
           \<longrightarrow> rs ! i = a"
      "lookup (heap w2) a = Some (GAPICVisionAPI 0)
         \<or> lookup (heap w2) a = Some (HTTPVisionAPI 0)"
      "length (filter is_adapter (heap w2))
         = Suc (length (filter is_adapter (heap (example_world Map.empty True []))))"
    by blast
  from r(3) have "rs ! 0 = a" "rs ! 2 = a" "rs ! 3 = a"
    by simp_all
  moreover from r(2) have "length rs = 4"
    by simp
  moreover from r(5) have "length (filter is_adapter (heap w2)) = 1"
    by simp
  ultimately show ?thesis
    using h k r(1,4) by blast
qed

text \<open>
  C5.  For a client in the store: if its cached field is unset, an access to \<open>_vision_api\<close>
  sets it to the adapter it returns; and once the field holds an adapter \<open>a\<close>, after any
  sequence \<open>xs\<close> of calls to \<open>batch\<close>, \<open>image\<close> and \<open>_vision_api\<close>, assignments to the
  attribute \<open>_use_gax\<close> and changes of the environment, every step succeeds, the field
  still holds \<open>a\<close>, and an access to \<open>_vision_api\<close> returns \<open>a\<close> and changes nothing.
\<close>

theorem cached_adapter_never_replaced:
  assumes "lookup (heap w) c = Some (ClientObj cl)"
  shows "(self_vision_api_internal cl = None \<longrightarrow>
            (\<exists>a w1 cl1. vision_api c w = Some (a, w1)
               \<and> lookup (heap w1) c = Some (ClientObj cl1)
               \<and> self_vision_api_internal cl1 = Some a))
       \<and> (\<forall>a. self_vision_api_internal cl = Some a \<longrightarrow>
            (\<exists>w1 cl1. acts c xs w = Some w1
               \<and> lookup (heap w1) c = Some (ClientObj cl1)
               \<and> self_vision_api_internal cl1 = Some a
               \<and> vision_api c w1 = Some (a, w1)))"
proof (intro conjI allI impI)
  assume none: "self_vision_api_internal cl = None"
  show "\<exists>a w1 cl1. vision_api c w = Some (a, w1)
               \<and> lookup (heap w1) c = Some (ClientObj cl1)
               \<and> self_vision_api_internal cl1 = Some a"
    using lookup_Some_less[OF assms]
    by (simp add: vision_api_unresolved[OF assms none] lookup_update_append_self)
next
  fix a assume some: "self_vision_api_internal cl = Some a"
  from acts_resolved[OF assms some] obtain w1 cl1 where
    r: "acts c xs w = Some w1" "lookup (heap w1) c = Some (ClientObj cl1)"
      "self_vision_api_internal cl1 = Some a"
    by blast
  from r vision_api_resolved[OF r(2,3)]
  show "\<exists>w1 cl1. acts c xs w = Some w1
               \<and> lookup (heap w1) c = Some (ClientObj cl1)
               \<and> self_vision_api_internal cl1 = Some a
               \<and> vision_api c w1 = Some (a, w1)"
    by blast
qed

text \<open>
  An unresolved client, and a resolved one whose flag is then set to false and whose
  environment is changed twice, between calls.
\<close>

theorem cached_adapter_never_replaced_witness:
  "lookup (heap (example_world Map.empty True [ClientObj (example_client True None)])) 0
    = Some (ClientObj (example_client True None))
   \<and> self_vision_api_internal (example_client True None) = None
   \<and> (\<exists>a w1 cl1.
        vision_api 0 (example_world Map.empty True [ClientObj (example_client True None)])
          = Some (a, w1)
        \<and> lookup (heap w1) 0 = Some (ClientObj cl1)
        \<and> self_vision_api_internal cl1 = Some a)
   \<and> lookup (heap (example_world Map.empty True
                     [ClientObj (example_client True (Some 1)), GAPICVisionAPI 0])) 0
    = Some (ClientObj (example_client True (Some 1)))
   \<and> self_vision_api_internal (example_client True (Some 1)) = Some 1
   \<and> (\<exists>w1 cl1.
        acts 0
          [SetUseGax False, PutEnv DISABLE_GRPC ''1'', Call CallVisionApi, Call CallBatch,
           DelEnv DISABLE_GRPC, Call (CallImage None (Some ''x.png'') None)]
          (example_world Map.empty True
             [ClientObj (example_client True (Some 1)), GAPICVisionAPI 0]) = Some w1
        \<and> lookup (heap w1) 0 = Some (ClientObj cl1)
        \<and> self_vision_api_internal cl1 = Some 1
        \<and> vision_api 0 w1 = Some (1, w1))"
proof -
  have u: "lookup (heap (example_world Map.empty True [ClientObj (example_client True None)])) 0
    = Some (ClientObj (example_client True None))"
    by (simp add: lookup_def)
  have r: "lookup (heap (example_world Map.empty True
                     [ClientObj (example_client True (Some 1)), GAPICVisionAPI 0])) 0
    = Some (ClientObj (example_client True (Some 1)))"
    by (simp add: lookup_def)
  from cached_adapter_never_replaced[OF u]
    cached_adapter_never_replaced[OF r, of
      "[SetUseGax False, PutEnv DISABLE_GRPC ''1'', Call CallVisionApi, Call CallBatch,
           DelEnv DISABLE_GRPC, Call (CallImage None (Some ''x.png'') None)]"]
    u r
  show ?thesis
    by simp
qed

section \<open>Construction\<close>

text \<open>
  C6.  The claim: construction raises exactly when no credentials are passed and none can
  be resolved from the surroundings.  It fails in both directions.  First input:
  credentials are passed (and default credentials exist as well), but no project is passed
  and none can be inferred; construction raises.  Second input: a project and an \<open>http\<close>
  object are passed, no credentials are passed and none can be resolved; construction
  succeeds, because credentials are looked for in the surroundings only when no \<open>http\<close>
  object is passed.
\<close>

theorem construction_error_counterexample:
  "Client_init
      ((example_world Map.empty True [])\<lparr>default_credentials := Some (Credentials ''d'')\<rparr>)
      None (Some (Credentials ''k'')) None None
    = Inl AuthenticationResolutionError
   \<and> Client_init (example_world Map.empty True []) (Some ''p'') None (Some (Http ''h'')) None
    = Inr (0, example_world Map.empty True
                [ClientObj \<lparr>project = ''p'', credentials = None, http = Some (Http ''h''),
                   self_use_gax = True, self_vision_api_internal = None\<rparr>])"
  by (simp add: Client_init_def ClientWithProject_init_def alloc_def)

text \<open>
  C6, as amended.  Construction raises exactly when the project or the credentials cannot
  be determined: no project is passed and none can be inferred, or no credentials and no
  \<open>http\<close> object are passed and no default credentials can be resolved.  When construction
  succeeds, the store has gained exactly one object, the client, and its cached adapter
  field is unset: no adapter has been created.
\<close>

theorem construction_error:
  "(Client_init w proj creds ht ug = Inl AuthenticationResolutionError
      \<longleftrightarrow> (proj = None \<and> default_project w = None)
          \<or> (creds = None \<and> ht = None \<and> default_credentials w = None))
   \<and> (\<forall>c w1. Client_init w proj creds ht ug = Inr (c, w1) \<longrightarrow>
         c = length (heap w)
         \<and> (\<exists>cl. w1 = w\<lparr>heap := heap w @ [ClientObj cl]\<rparr>
                \<and> self_vision_api_internal cl = None))"
  by (auto simp: Client_init_def ClientWithProject_init_def alloc_def
      split: sum.splits option.splits if_splits)

text \<open>Nothing is passed; a default project and default credentials exist.\<close>

theorem construction_error_witness:
  "Client_init
      ((example_world Map.empty True [])
         \<lparr>default_project := Some ''q'', default_credentials := Some (Credentials ''d'')\<rparr>)
      None None None None
    = Inr (0,
        (example_world Map.empty True
           [ClientObj \<lparr>project = ''q'', credentials = Some (Credentials ''d''), http = None,
              self_use_gax = True, self_vision_api_internal = None\<rparr>])
         \<lparr>default_project := Some ''q'', default_credentials := Some (Credentials ''d'')\<rparr>)
   \<and> Client_init
      ((example_world Map.empty True [])
         \<lparr>default_project := Some ''q'', default_credentials := Some (Credentials ''d'')\<rparr>)
      None None None None
    \<noteq> Inl AuthenticationResolutionError
   \<and> self_vision_api_internal
        \<lparr>project = ''q'', credentials = Some (Credentials ''d''), http = None,
         self_use_gax = True, self_vision_api_internal = None\<rparr> = None"
proof -
  have h: "Client_init
      ((example_world Map.empty True [])
         \<lparr>default_project := Some ''q'', default_credentials := Some (Credentials ''d'')\<rparr>)
      None None None None
    = Inr (0,
        (example_world Map.empty True
           [ClientObj \<lparr>project = ''q'', credentials = Some (Credentials ''d''), http = None,
              self_use_gax = True, self_vision_api_internal = None\<rparr>])
         \<lparr>default_project := Some ''q'', default_credentials := Some (Credentials ''d'')\<rparr>)"
    by (simp add: Client_init_def ClientWithProject_init_def alloc_def)
  from construction_error[of
      "(example_world Map.empty True [])
         \<lparr>default_project := Some ''q'', default_credentials := Some (Credentials ''d'')\<rparr>"
      None None None None] h
  show ?thesis
    by simp
qed

section \<open>The factory methods\<close>

text \<open>
  C7.  For a client in the store, two calls to \<open>batch\<close> succeed; each only appends a
  \<open>Batch\<close> bound to this client to the store and returns its reference, which was not in
  use before the call; the two references differ, and both objects are batches bound to
  the same client.
\<close>

theorem batch_returns_new_Batch:
  assumes "lookup (heap w) c = Some (ClientObj cl)"
  shows "\<exists>b1 b2 w1 w2.
           batch c w = Some (b1, w1) \<and> batch c w1 = Some (b2, w2)
           \<and> w1 = w\<lparr>heap := heap w @ [Batch c]\<rparr>
           \<and> w2 = w1\<lparr>heap := heap w1 @ [Batch c]\<rparr>
           \<and> lookup (heap w) b1 = None \<and> lookup (heap w1) b2 = None
           \<and> b1 \<noteq> b2
           \<and> lookup (heap w2) b1 = Some (Batch c) \<and> lookup (heap w2) b2 = Some (Batch c)"
  using assms lookup_Some_less[OF assms]
  by (simp add: batch_def alloc_def lookup_append_old) (simp add: lookup_def nth_append)

text \<open>Two calls on a new client.\<close>

theorem batch_returns_new_Batch_witness:
  "lookup (heap (example_world Map.empty True [ClientObj (example_client True None)])) 0
    = Some (ClientObj (example_client True None))
   \<and> batch 0 (example_world Map.empty True [ClientObj (example_client True None)])
    = Some (1, example_world Map.empty True [ClientObj (example_client True None), Batch 0])
   \<and> batch 0 (example_world Map.empty True [ClientObj (example_client True None), Batch 0])
    = Some (2, example_world Map.empty True
                 [ClientObj (example_client True None), Batch 0, Batch 0])"
proof -
  have h: "lookup (heap (example_world Map.empty True [ClientObj (example_client True None)])) 0
    = Some (ClientObj (example_client True None))"
    by (simp add: lookup_def)
  from batch_returns_new_Batch[OF h] h show ?thesis
    by (auto simp: batch_def alloc_def lookup_def)
qed

text \<open>
  C8.  For a client in the store and any three optional inputs (one of them given, or
  several, or none), \<open>image\<close> succeeds; it only appends an \<open>Image\<close> to the store, bound to
  this client and carrying exactly the three values it was called with, and returns its
  reference, which was not in use before.  The facade checks nothing about the inputs.
\<close>

theorem image_passes_inputs_through:
  assumes "lookup (heap w) c = Some (ClientObj cl)"
  shows "\<exists>i w1. image c content filename source_uri w = Some (i, w1)
           \<and> w1 = w\<lparr>heap := heap w @ [Image c content filename source_uri]\<rparr>
           \<and> lookup (heap w) i = None
           \<and> lookup (heap w1) i = Some (Image c content filename source_uri)"
  using assms
  by (simp add: image_def alloc_def) (simp add: lookup_def)

text \<open>Each input alone, and all three together.\<close>

theorem image_passes_inputs_through_witness:
  "lookup (heap (example_world Map.empty True [ClientObj (example_client True None)])) 0
    = Some (ClientObj (example_client True None))
   \<and> image 0 (Some ''abc'') None None
        (example_world Map.empty True [ClientObj (example_client True None)])
    = Some (1, example_world Map.empty True
                 [ClientObj (example_client True None), Image 0 (Some ''abc'') None None])
   \<and> image 0 None (Some ''x.png'') None
        (example_world Map.empty True [ClientObj (example_client True None)])
    = Some (1, example_world Map.empty True
                 [ClientObj (example_client True None), Image 0 None (Some ''x.png'') None])
   \<and> image 0 None None (Some ''gs://b/o'')
        (example_world Map.empty True [ClientObj (example_client True None)])
    = Some (1, example_world Map.empty True
                 [ClientObj (example_client True None), Image 0 None None (Some ''gs://b/o'')])
   \<and> image 0 (Some ''abc'') (Some ''x.png'') (Some ''gs://b/o'')
        (example_world Map.empty True [ClientObj (example_client True None)])
    = Some (1, example_world Map.empty True
                 [ClientObj (example_client True None),
                  Image 0 (Some ''abc'') (Some ''x.png'') (Some ''gs://b/o'')])"
proof -
  have h: "lookup (heap (example_world Map.empty True [ClientObj (example_client True None)])) 0
    = Some (ClientObj (example_client True None))"
    by (simp add: lookup_def)
  from image_passes_inputs_through[OF h, of "Some ''abc''" None None]
    image_passes_inputs_through[OF h, of None "Some ''x.png''" None]
    image_passes_inputs_through[OF h, of None None "Some ''gs://b/o''"]
    image_passes_inputs_through[OF h, of "Some ''abc''" "Some ''x.png''" "Some ''gs://b/o''"]
    h
  show ?thesis
    by (auto simp: image_def alloc_def lookup_def)
qed

section \<open>Frame condition\<close>

text \<open>
  C10.  For a client in the store and any one call \<open>k\<close> of \<open>batch\<close>, \<open>image\<close> or
  \<open>_vision_api\<close>: the call succeeds, and afterwards the client has the same project,
  credentials, http object and \<open>_use_gax\<close>.  The client object is unchanged altogether,
  except when the call is an access to \<open>_vision_api\<close> with the cached field unset, which
  sets that field (and nothing else) to the returned adapter.  Every other object that
  was in the store, the environment and the module constant are unchanged.
\<close>

theorem calls_frame:
  assumes "lookup (heap w) c = Some (ClientObj cl)"
  shows "\<exists>r w1 cl1. do_call c k w = Some (r, w1)
           \<and> lookup (heap w1) c = Some (ClientObj cl1)
           \<and> project cl1 = project cl \<and> credentials cl1 = credentials cl
           \<and> http cl1 = http cl \<and> self_use_gax cl1 = self_use_gax cl
           \<and> cl1 = (if k = CallVisionApi \<and> self_vision_api_internal cl = None
                     then cl\<lparr>self_vision_api_internal := Some r\<rparr> else cl)
           \<and> take (length (heap w)) (heap w1) = (heap w)[c := ClientObj cl1]
           \<and> environ w1 = environ w \<and> USE_GAX w1 = USE_GAX w"
proof (cases k)
  case CallBatch
  then show ?thesis using assms lookup_Some_less[OF assms]
    apply (simp add: batch_def alloc_def lookup_append_old)
    apply (simp add: lookup_def split: if_splits)
    by (metis list_update_id)
next
  case (CallImage content filename source_uri)
  then show ?thesis using assms lookup_Some_less[OF assms]
    apply (simp add: image_def alloc_def lookup_append_old)
    apply (simp add: lookup_def split: if_splits)
    by (metis list_update_id)
next
  case CallVisionApi
  show ?thesis
  proof (cases "self_vision_api_internal cl")
    case None
    then show ?thesis using CallVisionApi assms lookup_Some_less[OF assms]
      by (simp add: vision_api_unresolved[OF assms None] lookup_update_append_self)
  next
    case (Some a)
    then show ?thesis using CallVisionApi assms lookup_Some_less[OF assms]
      apply (simp add: vision_api_resolved[OF assms Some])
      apply (simp add: lookup_def split: if_splits)
      by (metis list_update_id)
  qed
qed

text \<open>The first access to \<open>_vision_api\<close>, and a call to \<open>batch\<close>.\<close>

theorem calls_frame_witness:
  "lookup (heap (example_world Map.empty True [ClientObj (example_client True None)])) 0
    = Some (ClientObj (example_client True None))
   \<and> do_call 0 CallVisionApi
        (example_world Map.empty True [ClientObj (example_client True None)])
    = Some (1, example_world Map.empty True
                 [ClientObj (example_client True (Some 1)), GAPICVisionAPI 0])
   \<and> do_call 0 CallBatch
        (example_world Map.empty True [ClientObj (example_client True None)])
    = Some (1, example_world Map.empty True [ClientObj (example_client True None), Batch 0])"
proof -
  have h: "lookup (heap (example_world Map.empty True [ClientObj (example_client True None)])) 0
    = Some (ClientObj (example_client True None))"
    by (simp add: lookup_def)
  from calls_frame[OF h, of CallVisionApi] calls_frame[OF h, of CallBatch] h
  show ?thesis
    by (auto simp: vision_api_def batch_def alloc_def)
qed

end
